theory Spec2Isabelle
  imports Main "HOL-Library.Word"
begin

unbundle bit_operations_syntax

section \<open>Channels (dex-channel.c)\<close>

subsection \<open>Data model\<close>

text \<open>
  \<^verbatim>\<open>guint\<close> is a 32-bit unsigned integer. A \<^verbatim>\<open>GQueue\<close> is GLib's doubly linked
  queue; its entries are modelled as a list, head first. Its \<^verbatim>\<open>length\<close> field is a
  \<^verbatim>\<open>guint\<close> that every push increments and every pop decrements, so it holds the
  number of entries modulo \<open>2 ^ 32\<close>: \<open>queue_length\<close> below. Every test and every
  sum that the channel computes on these fields is a test or a sum of 32-bit words.

  A \<^verbatim>\<open>DexPromise *\<close> is modelled by the address of the promise, a natural number
  handed out by an allocation counter. The futures that callers send are opaque to the
  channel and are values of a type variable \<open>'f\<close>. Reference counting is not modelled.
\<close>

type_synonym guint = "32 word"
type_synonym DexPromise = nat
type_synonym DexChannelStateFlags = "2 word"

definition G_MAXUINT :: guint where
  "G_MAXUINT = 4294967295"

definition queue_length :: "'a list \<Rightarrow> guint" where
  "queue_length q = of_nat (length q)"

definition DEX_CHANNEL_STATE_CAN_SEND :: DexChannelStateFlags where
  "DEX_CHANNEL_STATE_CAN_SEND = push_bit 0 1"

definition DEX_CHANNEL_STATE_CAN_RECEIVE :: DexChannelStateFlags where
  "DEX_CHANNEL_STATE_CAN_RECEIVE = push_bit 1 1"

datatype DexError = DEX_ERROR_CHANNEL_CLOSED

record 'f DexChannelItem =
  send :: DexPromise
  future :: 'f

record 'f DexChannel =
  sendq :: "'f DexChannelItem list"
  recvq :: "DexPromise list"
  queue :: "'f DexChannelItem list"
  capacity :: guint
  flags :: DexChannelStateFlags

text \<open>
  The future and promise implementation is not part of the channel. What the channel
  does to futures is recorded as the sequence of calls it makes into that interface, in
  the order in which it makes them.
\<close>

datatype 'f future_call =
    dex_future_chain 'f DexPromise
  | dex_promise_resolve_uint DexPromise guint
  | dex_promise_reject DexPromise DexError

text \<open>
  The value handed back to a caller: either a future created already rejected
  (\<^verbatim>\<open>dex_future_new_reject\<close>) or a promise cast to a future.
\<close>

datatype DexFuture =
    Rejected_future DexError
  | Promise_future DexPromise

record 'f world =
  chan :: "'f DexChannel"
  next_promise :: nat
  calls :: "'f future_call list"

subsection \<open>Operations\<close>

definition dex_promise_new :: "'f world \<Rightarrow> DexPromise \<times> 'f world" where
  "dex_promise_new w = (next_promise w, w\<lparr>next_promise := Suc (next_promise w)\<rparr>)"

definition dex_channel_item_new :: "'f \<Rightarrow> 'f world \<Rightarrow> 'f DexChannelItem \<times> 'f world" where
  "dex_channel_item_new fut w =
     (let (p, w1) = dex_promise_new w
      in (\<lparr>send = p, future = fut\<rparr>, w1))"

definition dex_channel_new :: "guint \<Rightarrow> 'f DexChannel" where
  "dex_channel_new cap =
     \<lparr>sendq = [], recvq = [], queue = [],
      capacity = (if cap = 0 then G_MAXUINT else cap),
      flags = DEX_CHANNEL_STATE_CAN_SEND OR DEX_CHANNEL_STATE_CAN_RECEIVE\<rparr>"

definition init_world :: "guint \<Rightarrow> 'f world" where
  "init_world cap = \<lparr>chan = dex_channel_new cap, next_promise = 0, calls = []\<rparr>"

definition has_capacity_locked :: "'f DexChannel \<Rightarrow> bool" where
  "has_capacity_locked channel \<longleftrightarrow>
     queue_length (sendq channel) = 0
     \<and> queue_length (queue channel) < capacity channel"

definition dex_channel_one_receive_and_unlock :: "'f world \<Rightarrow> 'f world" where
  "dex_channel_one_receive_and_unlock w =
     (let channel = chan w in
      if queue_length (queue channel) > 0 \<and> queue_length (recvq channel) > 0 then
        (let promise = hd (recvq channel);
             item = hd (queue channel);
             channel1 = channel\<lparr>recvq := tl (recvq channel), queue := tl (queue channel)\<rparr>
         in if queue_length (sendq channel1) > 0
               \<and> queue_length (queue channel1) < capacity channel1 then
              (let sendq_item = hd (sendq channel1);
                   channel2 = channel1\<lparr>sendq := tl (sendq channel1),
                                       queue := queue channel1 @ [sendq_item]\<rparr>;
                   qlen = queue_length (queue channel2)
               in w\<lparr>chan := channel2,
                     calls := calls w @ [dex_future_chain (future item) promise,
                                         dex_promise_resolve_uint (send sendq_item) qlen]\<rparr>)
            else
              w\<lparr>chan := channel1,
                calls := calls w @ [dex_future_chain (future item) promise]\<rparr>)
      else w)"

definition dex_channel_send :: "'f \<Rightarrow> 'f world \<Rightarrow> DexFuture \<times> 'f world" where
  "dex_channel_send fut w =
     (let required = DEX_CHANNEL_STATE_CAN_SEND OR DEX_CHANNEL_STATE_CAN_RECEIVE;
          (item, w1) = dex_channel_item_new fut w;
          channel = chan w1
      in if flags channel AND required \<noteq> required then
           (Rejected_future DEX_ERROR_CHANNEL_CLOSED, w1)
         else
           (let ret = Promise_future (send item)
            in if \<not> has_capacity_locked channel then
                 (ret, w1\<lparr>chan := channel\<lparr>sendq := sendq channel @ [item]\<rparr>\<rparr>)
               else
                 (let channel1 = channel\<lparr>queue := queue channel @ [item]\<rparr>;
                      w2 = w1\<lparr>chan := channel1,
                              calls := calls w1 @
                                [dex_promise_resolve_uint (send item)
                                   (queue_length (queue channel1))]\<rparr>
                  in (ret, dex_channel_one_receive_and_unlock w2))))"

definition reject_receive :: "DexPromise \<Rightarrow> 'f world \<Rightarrow> DexFuture \<times> 'f world" where
  "reject_receive recv w =
     (Promise_future recv,
      w\<lparr>calls := calls w @ [dex_promise_reject recv DEX_ERROR_CHANNEL_CLOSED]\<rparr>)"

definition dex_channel_receive :: "'f world \<Rightarrow> DexFuture \<times> 'f world" where
  "dex_channel_receive w =
     (let (recv, w1) = dex_promise_new w;
          channel = chan w1
      in if flags channel AND DEX_CHANNEL_STATE_CAN_RECEIVE = 0 then
           reject_receive recv w1
         else if flags channel AND DEX_CHANNEL_STATE_CAN_SEND = 0
                 \<and> queue_length (queue channel) + queue_length (sendq channel)
                     \<le> queue_length (recvq channel) then
           reject_receive recv w1
         else
           (Promise_future recv,
            dex_channel_one_receive_and_unlock
              (w1\<lparr>chan := channel\<lparr>recvq := recvq channel @ [recv]\<rparr>\<rparr>)))"

text \<open>
  The loop \<^verbatim>\<open>while (channel->recvq.length > pending)\<close> of
  \<^verbatim>\<open>dex_channel_unset_state_flags\<close>: the tail of \<open>recvq\<close> is popped and pushed onto
  the head of \<open>trunc\<close>. Both sides of the comparison are \<^verbatim>\<open>guint\<close>.
\<close>

function truncate_recvq :: "guint \<Rightarrow> DexPromise list \<Rightarrow> DexPromise list
                              \<Rightarrow> DexPromise list \<times> DexPromise list" where
  "truncate_recvq pending rq trunc =
     (if queue_length rq > pending
      then truncate_recvq pending (butlast rq) (last rq # trunc)
      else (rq, trunc))"
  by pat_completeness auto
termination
proof (relation "measure (\<lambda>(pending, rq, trunc). length rq)")
  show "wf (measure (\<lambda>(pending, rq, trunc). length rq))" by simp
next
  fix pending :: guint and rq trunc :: "DexPromise list"
  assume "pending < queue_length rq"
  then have "rq \<noteq> []" by (auto simp: queue_length_def)
  then show "((pending, butlast rq, last rq # trunc), pending, rq, trunc)
               \<in> measure (\<lambda>(pending, rq, trunc). length rq)"
    by simp
qed

declare truncate_recvq.simps [simp del]

text \<open>
  The draining loops that run after the lock is released have the shape
  \<^verbatim>\<open>while (q.length > 0) { x = pop_head (q); body (x); }\<close>, the guard reading the
  \<^verbatim>\<open>guint\<close> field. \<open>drain_queue\<close> is that loop, returning the calls that the bodies
  make. The bodies reject a receiver promise (for \<open>recvq\<close> and \<open>trunc\<close>) or the send
  promise of a parked item (for \<open>sendq\<close>). The fourth loop, over \<open>queue\<close>, only frees
  the items and makes no call on a future.
\<close>

function drain_queue :: "('a \<Rightarrow> 'c) \<Rightarrow> 'a list \<Rightarrow> 'c list" where
  "drain_queue body q =
     (if queue_length q > 0 then body (hd q) # drain_queue body (tl q) else [])"
  by pat_completeness auto
termination
proof (relation "measure (\<lambda>(body, q). length q)")
  show "wf (measure (\<lambda>(body, q). length q))" by simp
next
  fix body :: "'a \<Rightarrow> 'c" and q :: "'a list"
  assume "0 < queue_length q"
  then have "q \<noteq> []" by (auto simp: queue_length_def)
  then show "((body, tl q), body, q) \<in> measure (\<lambda>(body, q). length q)"
    by simp
qed

declare drain_queue.simps [simp del]

definition reject_promise :: "DexPromise \<Rightarrow> 'f future_call" where
  "reject_promise promise = dex_promise_reject promise DEX_ERROR_CHANNEL_CLOSED"

definition reject_sender :: "'f DexChannelItem \<Rightarrow> 'f future_call" where
  "reject_sender item = dex_promise_reject (send item) DEX_ERROR_CHANNEL_CLOSED"

definition dex_channel_unset_state_flags ::
    "DexChannelStateFlags \<Rightarrow> 'f world \<Rightarrow> 'f world" where
  "dex_channel_unset_state_flags fl w =
     (let channel = chan w;
          (channel1, trunc) =
            (if fl AND DEX_CHANNEL_STATE_CAN_SEND \<noteq> 0 then
               (let pending = queue_length (sendq channel) + queue_length (queue channel);
                    (rq, trunc) = truncate_recvq pending (recvq channel) []
                in (channel\<lparr>flags := flags channel AND NOT DEX_CHANNEL_STATE_CAN_SEND,
                            recvq := rq\<rparr>, trunc))
             else (channel, []));
          (channel2, sendq0, recvq0) =
            (if fl AND DEX_CHANNEL_STATE_CAN_RECEIVE \<noteq> 0 then
               (channel1\<lparr>flags := flags channel1 AND NOT DEX_CHANNEL_STATE_CAN_RECEIVE,
                         queue := [], sendq := [], recvq := []\<rparr>,
                sendq channel1, recvq channel1)
             else (channel1, [], []))
      in w\<lparr>chan := channel2,
            calls := calls w @ drain_queue reject_promise recvq0
                       @ drain_queue reject_promise trunc
                       @ drain_queue reject_sender sendq0\<rparr>)"

definition dex_channel_close_send :: "'f world \<Rightarrow> 'f world" where
  "dex_channel_close_send w = dex_channel_unset_state_flags DEX_CHANNEL_STATE_CAN_SEND w"

definition dex_channel_close_receive :: "'f world \<Rightarrow> 'f world" where
  "dex_channel_close_receive w =
     dex_channel_unset_state_flags DEX_CHANNEL_STATE_CAN_RECEIVE w"

definition dex_channel_can_send :: "'f DexChannel \<Rightarrow> bool" where
  "dex_channel_can_send channel \<longleftrightarrow> flags channel AND DEX_CHANNEL_STATE_CAN_SEND \<noteq> 0"

definition dex_channel_can_receive :: "'f DexChannel \<Rightarrow> bool" where
  "dex_channel_can_receive channel \<longleftrightarrow>
     flags channel AND DEX_CHANNEL_STATE_CAN_RECEIVE \<noteq> 0"


subsection \<open>Executions of a channel\<close>

text \<open>
  A channel only exists as the result of \<^verbatim>\<open>dex_channel_new\<close> followed by calls of its
  four public operations. An execution is the list of those calls; running it from the
  fresh channel gives the worlds a caller can ever observe.
\<close>

datatype 'f channel_op = Send 'f | Receive | Close_send | Close_receive

fun exec :: "'f channel_op \<Rightarrow> 'f world \<Rightarrow> 'f world" where
  "exec (Send fut) w = snd (dex_channel_send fut w)"
| "exec Receive w = snd (dex_channel_receive w)"
| "exec Close_send w = dex_channel_close_send w"
| "exec Close_receive w = dex_channel_close_receive w"

fun run :: "'f channel_op list \<Rightarrow> 'f world \<Rightarrow> 'f world" where
  "run [] w = w"
| "run (op # ops) w = run ops (exec op w)"

text \<open>The pairings made so far: the \<^verbatim>\<open>dex_future_chain\<close> calls, in order.\<close>

fun chains :: "'f future_call list \<Rightarrow> ('f \<times> DexPromise) list" where
  "chains [] = []"
| "chains (dex_future_chain fut promise # cs) = (fut, promise) # chains cs"
| "chains (dex_promise_resolve_uint promise n # cs) = chains cs"
| "chains (dex_promise_reject promise e # cs) = chains cs"

definition calls_during :: "'f world \<Rightarrow> 'f world \<Rightarrow> 'f future_call list" where
  "calls_during w w' = drop (length (calls w)) (calls w')"





subsection \<open>The pairing step as the specification words it\<close>




subsection \<open>Invariants of a channel\<close>




text \<open>The number of entries that the three queues of a channel hold together.\<close>

definition entries :: "'f DexChannel \<Rightarrow> nat" where
  "entries c = length (queue c) + length (sendq c) + length (recvq c)"

text \<open>Each queue holds fewer than \<open>2 ^ 32\<close> entries, so that no length field has wrapped.\<close>

definition fits :: "'f DexChannel \<Rightarrow> bool" where
  "fits c \<longleftrightarrow>
     length (queue c) < 2 ^ 32 \<and> length (sendq c) < 2 ^ 32 \<and> length (recvq c) < 2 ^ 32"

text \<open>The two tests by which \<^verbatim>\<open>dex_channel_receive\<close> jumps to its reject label.\<close>

definition receive_rejects :: "'f DexChannel \<Rightarrow> bool" where
  "receive_rejects c \<longleftrightarrow>
     \<not> dex_channel_can_receive c
     \<or> (\<not> dex_channel_can_send c
         \<and> queue_length (queue c) + queue_length (sendq c) \<le> queue_length (recvq c))"

section \<open>Fibers (dex-fiber.c, dex-fiber-private.h)\<close>

text \<open>
  On a 64-bit target \<^verbatim>\<open>gsize\<close> and pointers are 64-bit words and \<^verbatim>\<open>int\<close> is a
  32-bit two's complement word. \<^verbatim>\<open>dex_fiber_new\<close> stores the fiber pointer in two
  \<^verbatim>\<open>int\<close> variables (the conversion keeps the low 32 bits) and passes them to
  \<^verbatim>\<open>makecontext\<close>; \<^verbatim>\<open>dex_fiber_start_\<close> assigns each \<^verbatim>\<open>int\<close> to a
  \<^verbatim>\<open>gsize\<close> (a conversion from a signed type, which extends the sign) and computes
  \<^verbatim>\<open>(hi << 32) | lo\<close>.
\<close>

type_synonym gsize = "64 word"
type_synonym gint = "32 word"

definition dex_fiber_new_lo :: "gsize \<Rightarrow> gint" where
  "dex_fiber_new_lo fiber = ucast (fiber AND 0xFFFFFFFFF)"

definition dex_fiber_new_hi :: "gsize \<Rightarrow> gint" where
  "dex_fiber_new_hi fiber = ucast (drop_bit 32 fiber AND 0xFFFFFFFFF)"

definition dex_fiber_start_pointer :: "gint \<Rightarrow> gint \<Rightarrow> gsize" where
  "dex_fiber_start_pointer arg1 arg2 =
     (let hi = (scast arg1 :: gsize);
          lo = (scast arg2 :: gsize)
      in push_bit 32 hi OR lo)"

datatype DexFiberState =
    DEX_FIBER_STATE_READY
  | DEX_FIBER_STATE_WAITING
  | DEX_FIBER_STATE_EXITED







section \<open>Timeouts (dex-timeout.c)\<close>

type_synonym gint64 = "64 word"

datatype DexFutureStatus =
    DEX_FUTURE_STATUS_PENDING
  | DEX_FUTURE_STATUS_RESOLVED
  | DEX_FUTURE_STATUS_REJECTED

datatype GIOErrorEnum = G_IO_ERROR_TIMED_OUT

text \<open>
  A \<^verbatim>\<open>DexTimeout\<close> is a future with one more field, the \<^verbatim>\<open>GSource\<close> that fires
  at the deadline. \<open>source\<close> is \<open>None\<close> for the null pointer and otherwise holds the
  ready time of the source.
\<close>

record DexTimeout =
  status :: DexFutureStatus
  rejection :: "GIOErrorEnum option"
  source :: "gint64 option"

definition dex_timeout_new_deadline :: "gint64 \<Rightarrow> DexTimeout" where
  "dex_timeout_new_deadline deadline =
     \<lparr>status = DEX_FUTURE_STATUS_PENDING, rejection = None, source = Some deadline\<rparr>"

definition dex_timeout_postpone_until :: "DexTimeout \<Rightarrow> gint64 \<Rightarrow> DexTimeout" where
  "dex_timeout_postpone_until timeout deadline =
     (if source timeout \<noteq> None then timeout\<lparr>source := Some deadline\<rparr> else timeout)"

text \<open>
  A listener is a callback registered on the future by a caller. What such a callback
  can do to the timeout through the interface of dex-timeout.c is to call
  \<^verbatim>\<open>dex_timeout_postpone_until\<close>; a listener is modelled by the deadlines it passes
  to that function, in call order.
\<close>

type_synonym listener = "gint64 list"

definition invoke_listener :: "listener \<Rightarrow> DexTimeout \<Rightarrow> DexTimeout" where
  "invoke_listener cb timeout =
     fold (\<lambda>deadline t. dex_timeout_postpone_until t deadline) cb timeout"

text \<open>
  Modelled from the spec: \<^verbatim>\<open>dex_future_complete\<close> (dex-future.c is not among the
  sources), called here with no value and an error. It attempts the single legal
  transition from pending to terminal; on a future that is already terminal the error is
  discarded. On success the listeners are invoked synchronously, in insertion order,
  after the new status has been written.
\<close>

definition dex_future_complete ::
    "listener list \<Rightarrow> DexTimeout \<Rightarrow> GIOErrorEnum \<Rightarrow> DexTimeout" where
  "dex_future_complete listeners timeout e =
     (if status timeout = DEX_FUTURE_STATUS_PENDING
      then fold invoke_listener listeners
             (timeout\<lparr>status := DEX_FUTURE_STATUS_REJECTED, rejection := Some e\<rparr>)
      else timeout)"

text \<open>
  The callback of the source. Its argument is what the weak reference yields: \<open>None\<close>
  when the timeout has been finalized. It completes the future first and clears
  \<open>source\<close> afterwards. \<open>listeners\<close> are the listeners registered on the future at
  that moment.
\<close>

definition dex_timeout_source_func ::
    "listener list \<Rightarrow> DexTimeout option \<Rightarrow> DexTimeout option" where
  "dex_timeout_source_func listeners wr =
     (case wr of
        None \<Rightarrow> None
      | Some timeout \<Rightarrow>
          Some ((dex_future_complete listeners timeout G_IO_ERROR_TIMED_OUT)
                  \<lparr>source := None\<rparr>))"

text \<open>
  What can happen to a timeout after its creation: a caller postpones it, or the main
  loop dispatches its source while some listeners are registered. A source that has
  been cleared is no longer attached and cannot be dispatched.
\<close>

datatype timeout_event = Postpone_until gint64 | Source_dispatch "listener list"

fun timeout_exec :: "timeout_event \<Rightarrow> DexTimeout \<Rightarrow> DexTimeout" where
  "timeout_exec (Postpone_until deadline) timeout =
     dex_timeout_postpone_until timeout deadline"
| "timeout_exec (Source_dispatch listeners) timeout =
     (case source timeout of
        None \<Rightarrow> timeout
      | Some ready_time \<Rightarrow>
          (case dex_timeout_source_func listeners (Some timeout) of
             None \<Rightarrow> timeout
           | Some timeout' \<Rightarrow> timeout'))"

fun timeout_run :: "timeout_event list \<Rightarrow> DexTimeout \<Rightarrow> DexTimeout" where
  "timeout_run [] timeout = timeout"
| "timeout_run (ev # evs) timeout = timeout_run evs (timeout_exec ev timeout)"

section \<open>Properties of the channel\<close>

subsection \<open>The state flags\<close>

lemma word2_cases: "(x :: 2 word) = 0 \<or> x = 1 \<or> x = 2 \<or> x = 3"
proof -
  have "unat x < 4" using unsigned_less[of x] by simp
  then have "unat x = 0 \<or> unat x = 1 \<or> unat x = 2 \<or> unat x = 3" by arith
  then show ?thesis
    by (simp add: word_unat_eq_iff)
qed

lemma flags_required_iff:
  "(fl AND (DEX_CHANNEL_STATE_CAN_SEND OR DEX_CHANNEL_STATE_CAN_RECEIVE)
      = DEX_CHANNEL_STATE_CAN_SEND OR DEX_CHANNEL_STATE_CAN_RECEIVE)
   \<longleftrightarrow> fl AND DEX_CHANNEL_STATE_CAN_SEND \<noteq> 0 \<and> fl AND DEX_CHANNEL_STATE_CAN_RECEIVE \<noteq> 0"
  using word2_cases[of fl]
  unfolding DEX_CHANNEL_STATE_CAN_SEND_def DEX_CHANNEL_STATE_CAN_RECEIVE_def
  by auto

lemma flags_clear_send:
  "(fl AND NOT DEX_CHANNEL_STATE_CAN_SEND) AND DEX_CHANNEL_STATE_CAN_SEND = 0"
  "(fl AND NOT DEX_CHANNEL_STATE_CAN_SEND) AND DEX_CHANNEL_STATE_CAN_RECEIVE
     = fl AND DEX_CHANNEL_STATE_CAN_RECEIVE"
  using word2_cases[of fl]
  unfolding DEX_CHANNEL_STATE_CAN_SEND_def DEX_CHANNEL_STATE_CAN_RECEIVE_def
  by auto


lemma flags_self:
  "DEX_CHANNEL_STATE_CAN_SEND \<noteq> 0"
  "DEX_CHANNEL_STATE_CAN_RECEIVE \<noteq> 0"
  "DEX_CHANNEL_STATE_CAN_SEND AND DEX_CHANNEL_STATE_CAN_RECEIVE = 0"
  "DEX_CHANNEL_STATE_CAN_RECEIVE AND DEX_CHANNEL_STATE_CAN_SEND = 0"
  unfolding DEX_CHANNEL_STATE_CAN_SEND_def DEX_CHANNEL_STATE_CAN_RECEIVE_def
  by simp_all

subsection \<open>The length field of a queue\<close>

lemma queue_length_Nil [simp]: "queue_length [] = 0"
  by (simp add: queue_length_def)

lemma queue_length_snoc: "queue_length (q @ [x]) = of_nat (length q + 1)"
  by (simp add: queue_length_def)

lemma unat_queue_length: "length q < 2 ^ 32 \<Longrightarrow> unat (queue_length q) = length q"
  by (simp add: queue_length_def unat_of_nat)

lemma queue_length_0_iff: "length q < 2 ^ 32 \<Longrightarrow> queue_length q = 0 \<longleftrightarrow> q = []"
  using unat_queue_length[of q] by (auto simp: word_unat_eq_iff)

lemma queue_length_pos_iff: "length q < 2 ^ 32 \<Longrightarrow> 0 < queue_length q \<longleftrightarrow> q \<noteq> []"
  using queue_length_0_iff[of q] by (simp add: word_greater_zero_iff)

lemma queue_length_less_iff:
  "length q < 2 ^ 32 \<Longrightarrow> queue_length q < cap \<longleftrightarrow> length q < unat cap"
  by (simp add: word_less_nat_alt unat_queue_length)

lemma queue_length_gt_iff:
  "length q < 2 ^ 32 \<Longrightarrow> pending < queue_length q \<longleftrightarrow> unat pending < length q"
  by (simp add: word_less_nat_alt unat_queue_length)

lemma unat_queue_length_sum:
  "length a + length b < 2 ^ 32
     \<Longrightarrow> unat (queue_length a + queue_length b) = length a + length b"
proof -
  assume "length a + length b < 2 ^ 32"
  moreover have "queue_length a + queue_length b = (of_nat (length a + length b) :: guint)"
    by (simp add: queue_length_def)
  ultimately show ?thesis by (simp add: unat_of_nat del: of_nat_add)
qed

lemma queue_length_sum_le_iff:
  assumes "length a + length b < 2 ^ 32" and "length r < 2 ^ 32"
  shows "queue_length a + queue_length b \<le> queue_length r
           \<longleftrightarrow> length a + length b \<le> length r"
  using assms by (simp add: word_le_nat_alt unat_queue_length_sum unat_queue_length)

lemma queue_length_wrapped:
  "length q = 4294967296 \<Longrightarrow> queue_length q = 0"
  by (simp add: queue_length_def)

subsection \<open>Each operation, case by case\<close>

lemma truncate_recvq_stops:
  "\<not> pending < queue_length rq \<Longrightarrow> truncate_recvq pending rq trunc = (rq, trunc)"
  by (subst truncate_recvq.simps) simp

lemma truncate_recvq_eq:
  "length rq < 2 ^ 32 \<Longrightarrow>
     truncate_recvq pending rq trunc = (take (unat pending) rq, drop (unat pending) rq @ trunc)"
proof (induction pending rq trunc rule: truncate_recvq.induct)
  case (1 pending rq trunc)
  show ?case
  proof (cases "pending < queue_length rq")
    case True
    then have lt: "unat pending < length rq"
      using "1.prems" by (simp add: queue_length_gt_iff)
    then have ne: "drop (unat pending) rq \<noteq> []" by simp
    have "drop (unat pending) (butlast rq) @ [last rq]
            = butlast (drop (unat pending) rq) @ [last (drop (unat pending) rq)]"
      using lt by (simp add: butlast_drop)
    also have "\<dots> = drop (unat pending) rq" using ne by (rule append_butlast_last_id)
    finally have d: "drop (unat pending) (butlast rq) @ last rq # trunc
                       = drop (unat pending) rq @ trunc"
      by (metis append.assoc append_Cons append_Nil)
    have t: "take (unat pending) (butlast rq) = take (unat pending) rq"
      using lt by (simp add: take_butlast)
    have "length (butlast rq) < 2 ^ 32" using "1.prems" by simp
    from "1.IH"[OF True this] show ?thesis
      using True d t by (subst truncate_recvq.simps) simp
  next
    case False
    then have "length rq \<le> unat pending"
      using "1.prems" by (simp add: queue_length_gt_iff)
    then show ?thesis using False by (simp add: truncate_recvq_stops)
  qed
qed

lemma drain_queue_eq: "length q < 2 ^ 32 \<Longrightarrow> drain_queue body q = map body q"
proof (induction q)
  case Nil
  show ?case by (subst drain_queue.simps) simp
next
  case (Cons x xs)
  then have "0 < queue_length (x # xs)" by (simp add: queue_length_pos_iff)
  then have "drain_queue body (x # xs) = body x # drain_queue body xs"
    by (subst drain_queue.simps) simp
  then show ?case using Cons by simp
qed

lemma chains_append [simp]: "chains (xs @ ys) = chains xs @ chains ys"
  by (induction xs rule: chains.induct) simp_all

lemma chains_reject_promises [simp]: "chains (map reject_promise ps) = []"
  by (induction ps) (simp_all add: reject_promise_def)

lemma chains_reject_senders [simp]: "chains (map reject_sender its) = []"
  by (induction its) (simp_all add: reject_sender_def)

lemma step_idle:
  "queue (chan w) = [] \<or> recvq (chan w) = [] \<Longrightarrow> dex_channel_one_receive_and_unlock w = w"
  by (auto simp: dex_channel_one_receive_and_unlock_def)

lemma step_pair:
  assumes "queue (chan w) = it # q" and "recvq (chan w) = p # r" and "fits (chan w)"
  shows "dex_channel_one_receive_and_unlock w =
          (if sendq (chan w) \<noteq> [] \<and> length q < unat (capacity (chan w))
           then w\<lparr>chan := (chan w)\<lparr>recvq := r, sendq := tl (sendq (chan w)),
                                   queue := q @ [hd (sendq (chan w))]\<rparr>,
                  calls := calls w @ [dex_future_chain (future it) p,
                     dex_promise_resolve_uint (send (hd (sendq (chan w))))
                        (of_nat (length q + 1))]\<rparr>
           else w\<lparr>chan := (chan w)\<lparr>recvq := r, queue := q\<rparr>,
                  calls := calls w @ [dex_future_chain (future it) p]\<rparr>)"
proof -
  have b: "length (it # q) < 2 ^ 32" "length (p # r) < 2 ^ 32" "length (sendq (chan w)) < 2 ^ 32"
    using assms by (simp_all add: fits_def)
  then have q: "length q < 2 ^ 32" by simp
  have "0 < queue_length (it # q)" "0 < queue_length (p # r)"
    using b by (simp_all only: queue_length_pos_iff) simp_all
  then show ?thesis
    using assms(1,2) b(3) q
    by (simp add: dex_channel_one_receive_and_unlock_def Let_def queue_length_pos_iff
        queue_length_less_iff queue_length_snoc)
qed

lemma step_capacity:
  "capacity (chan (dex_channel_one_receive_and_unlock w)) = capacity (chan w)"
  by (simp add: dex_channel_one_receive_and_unlock_def Let_def)

lemma step_sendq_Nil:
  "sendq (chan w) = [] \<Longrightarrow> sendq (chan (dex_channel_one_receive_and_unlock w)) = []"
  by (simp add: dex_channel_one_receive_and_unlock_def Let_def)




lemma receive_rejects_iff:
  assumes "entries c < 2 ^ 32"
  shows "receive_rejects c \<longleftrightarrow>
           \<not> dex_channel_can_receive c
           \<or> (\<not> dex_channel_can_send c
               \<and> length (queue c) + length (sendq c) \<le> length (recvq c))"
proof -
  have "length (queue c) + length (sendq c) < 2 ^ 32" "length (recvq c) < 2 ^ 32"
    using assms by (simp_all add: entries_def)
  then show ?thesis by (simp add: receive_rejects_def queue_length_sum_le_iff)
qed


lemma send_rejected_eq:
  assumes "\<not> (dex_channel_can_send (chan w) \<and> dex_channel_can_receive (chan w))"
  shows "dex_channel_send fut w =
           (Rejected_future DEX_ERROR_CHANNEL_CLOSED, w\<lparr>next_promise := Suc (next_promise w)\<rparr>)"
  using assms
  by (simp add: dex_channel_send_def dex_channel_item_new_def dex_promise_new_def
      dex_channel_can_send_def dex_channel_can_receive_def flags_required_iff Let_def)

lemma send_parked_eq:
  assumes "dex_channel_can_send (chan w)" and "dex_channel_can_receive (chan w)"
    and "\<not> has_capacity_locked (chan w)"
  shows "dex_channel_send fut w =
           (Promise_future (next_promise w),
            w\<lparr>next_promise := Suc (next_promise w),
              chan := (chan w)\<lparr>sendq := sendq (chan w)
                                   @ [\<lparr>send = next_promise w, future = fut\<rparr>]\<rparr>\<rparr>)"
  using assms
  by (simp add: dex_channel_send_def dex_channel_item_new_def dex_promise_new_def
      dex_channel_can_send_def dex_channel_can_receive_def flags_required_iff Let_def)

lemma send_queued_eq:
  assumes "dex_channel_can_send (chan w)" and "dex_channel_can_receive (chan w)"
    and "has_capacity_locked (chan w)"
  shows "dex_channel_send fut w =
           (Promise_future (next_promise w),
            dex_channel_one_receive_and_unlock
              (w\<lparr>next_promise := Suc (next_promise w),
                 chan := (chan w)\<lparr>queue := queue (chan w)
                                       @ [\<lparr>send = next_promise w, future = fut\<rparr>]\<rparr>,
                 calls := calls w @ [dex_promise_resolve_uint (next_promise w)
                                       (of_nat (length (queue (chan w)) + 1))]\<rparr>))"
  using assms
  by (simp add: dex_channel_send_def dex_channel_item_new_def dex_promise_new_def
      dex_channel_can_send_def dex_channel_can_receive_def flags_required_iff Let_def
      queue_length_snoc)

lemma receive_rejected_eq:
  assumes "receive_rejects (chan w)"
  shows "dex_channel_receive w =
           (Promise_future (next_promise w),
            w\<lparr>next_promise := Suc (next_promise w),
              calls := calls w @ [dex_promise_reject (next_promise w)
                                    DEX_ERROR_CHANNEL_CLOSED]\<rparr>)"
  using assms
  by (auto simp: dex_channel_receive_def dex_promise_new_def reject_receive_def
      dex_channel_can_send_def dex_channel_can_receive_def receive_rejects_def Let_def)

lemma receive_accepted_eq:
  assumes "\<not> receive_rejects (chan w)"
  shows "dex_channel_receive w =
           (Promise_future (next_promise w),
            dex_channel_one_receive_and_unlock
              (w\<lparr>next_promise := Suc (next_promise w),
                 chan := (chan w)\<lparr>recvq := recvq (chan w) @ [next_promise w]\<rparr>\<rparr>))"
  using assms
  by (auto simp: dex_channel_receive_def dex_promise_new_def reject_receive_def
      dex_channel_can_send_def dex_channel_can_receive_def receive_rejects_def Let_def)

lemma close_send_eq:
  assumes "length (recvq (chan w)) < 2 ^ 32"
  shows "dex_channel_close_send w =
     w\<lparr>chan := (chan w)\<lparr>flags := flags (chan w) AND NOT DEX_CHANNEL_STATE_CAN_SEND,
             recvq := take (unat (queue_length (sendq (chan w)) + queue_length (queue (chan w))))
                        (recvq (chan w))\<rparr>,
       calls := calls w @ map reject_promise
                  (drop (unat (queue_length (sendq (chan w)) + queue_length (queue (chan w))))
                     (recvq (chan w)))\<rparr>"
proof -
  have "length (drop (unat (queue_length (sendq (chan w)) + queue_length (queue (chan w))))
                  (recvq (chan w))) < 2 ^ 32"
    using assms by simp
  then show ?thesis
    using assms
    by (simp add: dex_channel_close_send_def dex_channel_unset_state_flags_def
        truncate_recvq_eq drain_queue_eq flags_self Let_def)
qed


text \<open>The defining equations needed to evaluate an execution on concrete input.\<close>

lemmas channel_defs = dex_channel_send_def dex_channel_receive_def dex_channel_close_send_def
  dex_channel_close_receive_def dex_channel_unset_state_flags_def init_world_def
  dex_channel_new_def dex_channel_item_new_def dex_promise_new_def reject_receive_def
  dex_channel_one_receive_and_unlock_def has_capacity_locked_def
  dex_channel_can_send_def dex_channel_can_receive_def
  DEX_CHANNEL_STATE_CAN_SEND_def DEX_CHANNEL_STATE_CAN_RECEIVE_def G_MAXUINT_def Let_def
  truncate_recvq_eq drain_queue_eq calls_during_def queue_length_def
  reject_promise_def reject_sender_def

subsection \<open>Sending\<close>

text \<open>
  Claim C2, as the code has it. \<^verbatim>\<open>dex_channel_send\<close> requires both state flags: it
  returns a future rejected with \<^verbatim>\<open>DEX_ERROR_CHANNEL_CLOSED\<close> exactly when
  \<^verbatim>\<open>CAN_SEND\<close> or \<^verbatim>\<open>CAN_RECEIVE\<close> is clear. When both are set it allocates an item
  holding the sent future and a fresh send promise, and returns that promise.
\<close>

theorem send_rejected_iff_a_side_closed:
  "(fst (dex_channel_send fut w) = Rejected_future DEX_ERROR_CHANNEL_CLOSED
      \<longleftrightarrow> \<not> dex_channel_can_send (chan w) \<or> \<not> dex_channel_can_receive (chan w))
   \<and> (dex_channel_can_send (chan w) \<and> dex_channel_can_receive (chan w)
      \<longrightarrow> future (fst (dex_channel_item_new fut w)) = fut
          \<and> fst (dex_channel_send fut w)
              = Promise_future (send (fst (dex_channel_item_new fut w))))"
  by (simp add: dex_channel_send_def dex_channel_item_new_def dex_promise_new_def
      dex_channel_can_send_def dex_channel_can_receive_def flags_required_iff Let_def)

theorem send_rejected_iff_a_side_closed_witness:
  "dex_channel_can_send (chan (init_world 1 :: nat world))
   \<and> dex_channel_can_receive (chan (init_world 1 :: nat world))
   \<and> future (fst (dex_channel_item_new (7 :: nat) (init_world 1))) = 7
   \<and> fst (dex_channel_send (7 :: nat) (init_world 1)) = Promise_future 0"
  using send_rejected_iff_a_side_closed[of "7 :: nat" "init_world 1"]
  by (simp add: channel_defs)

text \<open>
  The claim as written (rejected exactly when \<^verbatim>\<open>CAN_SEND\<close> is clear) fails after
  \<^verbatim>\<open>dex_channel_close_receive\<close>: \<^verbatim>\<open>CAN_SEND\<close> is still set and the send is rejected.
\<close>

theorem send_rejected_while_can_send_set:
  "dex_channel_can_send (chan (dex_channel_close_receive (init_world 1 :: nat world)))
   \<and> fst (dex_channel_send (7 :: nat) (dex_channel_close_receive (init_world 1)))
       = Rejected_future DEX_ERROR_CHANNEL_CLOSED"
  by (simp add: channel_defs)

text \<open>
  Claim C3. On a channel with both sides open, with \<open>sendq\<close> empty and
  \<open>queue.length < capacity\<close>, \<^verbatim>\<open>dex_channel_send\<close> pushes the new item onto the tail
  of \<open>queue\<close>, resolves the returned send promise with the length of the queue after
  the push, and then runs one pairing step. The resolved number is the length itself:
  it does not wrap.
\<close>

theorem send_with_capacity:
  assumes "dex_channel_can_send (chan w)" and "dex_channel_can_receive (chan w)"
    and "sendq (chan w) = []"
    and "length (queue (chan w)) < unat (capacity (chan w))"
  shows "dex_channel_send fut w =
           (Promise_future (next_promise w),
            dex_channel_one_receive_and_unlock
              (w\<lparr>next_promise := Suc (next_promise w),
                 chan := (chan w)\<lparr>queue := queue (chan w)
                                       @ [\<lparr>send = next_promise w, future = fut\<rparr>]\<rparr>,
                 calls := calls w @ [dex_promise_resolve_uint (next_promise w)
                                       (of_nat (length (queue (chan w)) + 1))]\<rparr>))
         \<and> unat (of_nat (length (queue (chan w)) + 1) :: guint)
             = length (queue (chan w)) + 1"
proof -
  have "length (queue (chan w)) + 1 \<le> unat (capacity (chan w))" using assms(4) by simp
  also have "\<dots> < 2 ^ 32" using unsigned_less[of "capacity (chan w)"] by simp
  finally have small: "length (queue (chan w)) + 1 < 2 ^ 32" .
  then have "unat (of_nat (length (queue (chan w)) + 1) :: guint)
             = length (queue (chan w)) + 1"
    by (simp add: unat_of_nat del: of_nat_add of_nat_Suc)
  moreover have "has_capacity_locked (chan w)"
    using assms(3,4) small by (simp add: has_capacity_locked_def queue_length_less_iff)
  ultimately show ?thesis
    using assms(1,2) by (simp add: send_queued_eq)
qed

theorem send_with_capacity_witness:
  "dex_channel_send (7 :: nat) (init_world 2) =
     (Promise_future 0,
      \<lparr>chan = \<lparr>sendq = [], recvq = [], queue = [\<lparr>send = 0, future = 7\<rparr>],
               capacity = 2, flags = 3\<rparr>,
       next_promise = 1,
       calls = [dex_promise_resolve_uint 0 1]\<rparr>)"
proof -
  have "dex_channel_can_send (chan (init_world 2 :: nat world))"
    and "dex_channel_can_receive (chan (init_world 2 :: nat world))"
    and "sendq (chan (init_world 2 :: nat world)) = []"
    and "length (queue (chan (init_world 2 :: nat world)))
           < unat (capacity (chan (init_world 2 :: nat world)))"
    by (simp_all add: channel_defs)
  from send_with_capacity[OF this, of "7 :: nat"] show ?thesis
    by (simp add: channel_defs)
qed

subsection \<open>Long executions\<close>

lemma run_append: "run (xs @ ys) w = run ys (run xs w)"
  by (induction xs arbitrary: w) simp_all

lemma run_snoc: "run (replicate (Suc n) op) w = exec op (run (replicate n op) w)"
proof -
  have "replicate (Suc n) op = replicate n op @ [op]"
    by (simp add: replicate_append_same)
  then show ?thesis by (simp only: run_append run.simps)
qed

lemma unat_G_MAXUINT: "unat G_MAXUINT = 4294967295"
  by (simp add: G_MAXUINT_def)

text \<open>Any number of receives on a fresh channel: all of them wait in \<open>recvq\<close>.\<close>

lemma receives_fill:
  "length (recvq (chan (run (replicate n (Receive :: 'f channel_op)) (init_world cap)))) = n
   \<and> queue (chan (run (replicate n (Receive :: 'f channel_op)) (init_world cap))) = []
   \<and> sendq (chan (run (replicate n (Receive :: 'f channel_op)) (init_world cap))) = []
   \<and> dex_channel_can_send (chan (run (replicate n (Receive :: 'f channel_op)) (init_world cap)))
   \<and> dex_channel_can_receive (chan (run (replicate n (Receive :: 'f channel_op)) (init_world cap)))
   \<and> capacity (chan (run (replicate n (Receive :: 'f channel_op)) (init_world cap)))
       = (if cap = 0 then G_MAXUINT else cap)
   \<and> calls (run (replicate n (Receive :: 'f channel_op)) (init_world cap)) = []"
proof (induction n)
  case 0
  show ?case by (simp add: channel_defs)
next
  case (Suc n)
  let ?w = "run (replicate n (Receive :: 'f channel_op)) (init_world cap)"
  from Suc have "\<not> receive_rejects (chan ?w)" by (auto simp: receive_rejects_def)
  then have "exec Receive ?w
      = ?w\<lparr>next_promise := Suc (next_promise ?w),
            chan := (chan ?w)\<lparr>recvq := recvq (chan ?w) @ [next_promise ?w]\<rparr>\<rparr>"
    using Suc by (simp add: receive_accepted_eq step_idle)
  then show ?case
    unfolding run_snoc using Suc
    by (simp add: dex_channel_can_send_def dex_channel_can_receive_def)
qed

text \<open>
  Any number of sends on a fresh channel of capacity 1: the first is queued, all the
  others are parked in \<open>sendq\<close>.
\<close>

lemma sends_park:
  "queue (chan (run (replicate (Suc n) (Send fut)) (init_world 1)))
       = [\<lparr>send = 0, future = fut\<rparr>]
   \<and> length (sendq (chan (run (replicate (Suc n) (Send fut)) (init_world 1)))) = n
   \<and> recvq (chan (run (replicate (Suc n) (Send fut)) (init_world 1))) = []
   \<and> dex_channel_can_send (chan (run (replicate (Suc n) (Send fut)) (init_world 1)))
   \<and> dex_channel_can_receive (chan (run (replicate (Suc n) (Send fut)) (init_world 1)))
   \<and> capacity (chan (run (replicate (Suc n) (Send fut)) (init_world 1))) = 1
   \<and> calls (run (replicate (Suc n) (Send fut)) (init_world 1))
       = [dex_promise_resolve_uint 0 1]
   \<and> next_promise (run (replicate (Suc n) (Send fut)) (init_world 1)) = Suc n"
proof (induction n)
  case 0
  show ?case by (simp add: channel_defs)
next
  case (Suc n)
  let ?w = "run (replicate (Suc n) (Send fut)) (init_world 1)"
  from Suc have "\<not> has_capacity_locked (chan ?w)"
    by (simp add: has_capacity_locked_def queue_length_def)
  then have "exec (Send fut) ?w
      = ?w\<lparr>next_promise := Suc (next_promise ?w),
            chan := (chan ?w)\<lparr>sendq := sendq (chan ?w)
                                   @ [\<lparr>send = next_promise ?w, future = fut\<rparr>]\<rparr>\<rparr>"
    using Suc by (simp add: send_parked_eq)
  then show ?case
    unfolding run_snoc[of "Suc n"] using Suc
    by (simp add: dex_channel_can_send_def dex_channel_can_receive_def)
qed


lemma unset_state_flags_capacity:
  "capacity (chan (dex_channel_unset_state_flags fl w)) = capacity (chan w)"
  by (simp add: dex_channel_unset_state_flags_def Let_def split: prod.split)

lemma exec_capacity: "capacity (chan (exec op w)) = capacity (chan w)"
proof (cases op)
  case (Send fut)
  then show ?thesis
    by (cases "dex_channel_can_send (chan w) \<and> dex_channel_can_receive (chan w)";
        cases "has_capacity_locked (chan w)")
       (simp_all add: send_rejected_eq send_parked_eq send_queued_eq step_capacity)
next
  case Receive
  then show ?thesis
    by (cases "receive_rejects (chan w)")
       (simp_all add: receive_rejected_eq receive_accepted_eq step_capacity)
next
  case Close_send
  then show ?thesis
    by (simp add: dex_channel_close_send_def unset_state_flags_capacity)
next
  case Close_receive
  then show ?thesis
    by (simp add: dex_channel_close_receive_def unset_state_flags_capacity)
qed

lemma run_capacity: "capacity (chan (run ops w)) = capacity (chan w)"
  by (induction ops arbitrary: w) (simp_all add: exec_capacity)

text \<open>
  Up to \<open>2 ^ 32 - 1\<close> sends on a fresh channel created with capacity 0: all of them
  are queued.
\<close>

lemma sends_fill:
  "n \<le> 4294967295 \<Longrightarrow>
     length (queue (chan (run (replicate n (Send fut)) (init_world 0)))) = n
     \<and> sendq (chan (run (replicate n (Send fut)) (init_world 0))) = []
     \<and> recvq (chan (run (replicate n (Send fut)) (init_world 0))) = []
     \<and> dex_channel_can_send (chan (run (replicate n (Send fut)) (init_world 0)))
     \<and> dex_channel_can_receive (chan (run (replicate n (Send fut)) (init_world 0)))"
proof (induction n)
  case 0
  show ?case by (simp add: channel_defs)
next
  case (Suc n)
  let ?w = "run (replicate n (Send fut)) (init_world 0)"
  from Suc have ih: "length (queue (chan ?w)) = n" "sendq (chan ?w) = []"
    "recvq (chan ?w) = []" "dex_channel_can_send (chan ?w)" "dex_channel_can_receive (chan ?w)"
    by simp_all
  have "capacity (chan ?w) = G_MAXUINT"
    by (simp add: run_capacity init_world_def dex_channel_new_def)
  then have cap: "has_capacity_locked (chan ?w)"
    using ih(1,2) Suc.prems
    by (simp add: has_capacity_locked_def queue_length_less_iff unat_G_MAXUINT)
  show ?case
    unfolding run_snoc using ih cap
    by (simp add: send_queued_eq step_idle dex_channel_can_send_def
        dex_channel_can_receive_def)
qed

text \<open>The send after those is parked.\<close>

lemma sends_overflow:
  "length (queue (chan (run (replicate 4294967296 (Send fut)) (init_world 0)))) = 4294967295
   \<and> length (sendq (chan (run (replicate 4294967296 (Send fut)) (init_world 0)))) = 1
   \<and> recvq (chan (run (replicate 4294967296 (Send fut)) (init_world 0))) = []
   \<and> dex_channel_can_send (chan (run (replicate 4294967296 (Send fut)) (init_world 0)))
   \<and> dex_channel_can_receive (chan (run (replicate 4294967296 (Send fut)) (init_world 0)))"
proof -
  let ?w = "run (replicate 4294967295 (Send fut)) (init_world 0)"
  have fill: "length (queue (chan ?w)) = 4294967295" "sendq (chan ?w) = []"
    "recvq (chan ?w) = []" "dex_channel_can_send (chan ?w)" "dex_channel_can_receive (chan ?w)"
    using sends_fill[of 4294967295 fut] by simp_all
  have "capacity (chan ?w) = G_MAXUINT"
    by (simp add: run_capacity init_world_def dex_channel_new_def)
  then have "\<not> has_capacity_locked (chan ?w)"
    using fill(1)
    by (simp add: has_capacity_locked_def queue_length_less_iff unat_G_MAXUINT)
  moreover have "run (replicate 4294967296 (Send fut)) (init_world 0) = exec (Send fut) ?w"
    using run_snoc[of 4294967295 "Send fut" "init_world 0"] by simp
  ultimately show ?thesis
    using fill
    by (simp add: send_parked_eq dex_channel_can_send_def dex_channel_can_receive_def)
qed

subsection \<open>The pairing step\<close>

text \<open>
  Claim C4, as the code has it. In a pairing step, once the head item and the head
  receiver promise have been popped, a non-empty \<open>sendq\<close> and a queue below capacity
  make the step move the head of \<open>sendq\<close> to the tail of \<open>queue\<close> and resolve that
  item's send promise with the new queue length, provided \<open>sendq\<close> and \<open>recvq\<close> each
  hold fewer than \<open>2 ^ 32\<close> entries. On a channel of capacity 1: the first send is
  resolved with 1, the second send is parked and its promise stays untouched, and a
  single receive chains the first future into the receiver and resolves the parked
  promise with 1.
\<close>

theorem pairing_step_advances_parked_send:
  fixes w :: "'f world" and f1 f2 :: 'f
  shows
  "(queue (chan w) = it # q \<and> recvq (chan w) = p # r \<and> sendq (chan w) = parked # s
      \<and> length q < unat (capacity (chan w))
      \<and> length (sendq (chan w)) < 2 ^ 32 \<and> length (recvq (chan w)) < 2 ^ 32
    \<longrightarrow> dex_channel_one_receive_and_unlock w =
          w\<lparr>chan := (chan w)\<lparr>recvq := r, sendq := s, queue := q @ [parked]\<rparr>,
            calls := calls w @ [dex_future_chain (future it) p,
                                dex_promise_resolve_uint (send parked)
                                  (of_nat (length (q @ [parked])))]\<rparr>)
   \<and> fst (dex_channel_send f1 (init_world 1)) = Promise_future 0
   \<and> calls (run [Send f1] (init_world 1)) = [dex_promise_resolve_uint 0 1]
   \<and> fst (dex_channel_send f2 (run [Send f1] (init_world 1))) = Promise_future 1
   \<and> sendq (chan (run [Send f1, Send f2] (init_world 1))) = [\<lparr>send = 1, future = f2\<rparr>]
   \<and> calls (run [Send f1, Send f2] (init_world 1)) = [dex_promise_resolve_uint 0 1]
   \<and> fst (dex_channel_receive (run [Send f1, Send f2] (init_world 1))) = Promise_future 2
   \<and> calls (run [Send f1, Send f2, Receive] (init_world 1))
       = [dex_promise_resolve_uint 0 1, dex_future_chain f1 2, dex_promise_resolve_uint 1 1]"
proof -
  have "queue (chan w) = it # q \<and> recvq (chan w) = p # r \<and> sendq (chan w) = parked # s
      \<and> length q < unat (capacity (chan w))
      \<and> length (sendq (chan w)) < 2 ^ 32 \<and> length (recvq (chan w)) < 2 ^ 32
    \<longrightarrow> dex_channel_one_receive_and_unlock w =
          w\<lparr>chan := (chan w)\<lparr>recvq := r, sendq := s, queue := q @ [parked]\<rparr>,
            calls := calls w @ [dex_future_chain (future it) p,
                                dex_promise_resolve_uint (send parked)
                                  (of_nat (length (q @ [parked])))]\<rparr>"
  proof
    assume a: "queue (chan w) = it # q \<and> recvq (chan w) = p # r \<and> sendq (chan w) = parked # s
      \<and> length q < unat (capacity (chan w))
      \<and> length (sendq (chan w)) < 2 ^ 32 \<and> length (recvq (chan w)) < 2 ^ 32"
    have "unat (capacity (chan w)) < 2 ^ 32"
      using unsigned_less[of "capacity (chan w)"] by simp
    then have "fits (chan w)" using a by (auto simp: fits_def)
    then show "dex_channel_one_receive_and_unlock w =
          w\<lparr>chan := (chan w)\<lparr>recvq := r, sendq := s, queue := q @ [parked]\<rparr>,
            calls := calls w @ [dex_future_chain (future it) p,
                                dex_promise_resolve_uint (send parked)
                                  (of_nat (length (q @ [parked])))]\<rparr>"
      using a by (simp add: step_pair)
  qed
  moreover have "fst (dex_channel_send f1 (init_world 1)) = Promise_future 0"
    and "calls (run [Send f1] (init_world 1)) = [dex_promise_resolve_uint 0 1]"
    and "fst (dex_channel_send f2 (run [Send f1] (init_world 1))) = Promise_future 1"
    and "sendq (chan (run [Send f1, Send f2] (init_world 1))) = [\<lparr>send = 1, future = f2\<rparr>]"
    and "calls (run [Send f1, Send f2] (init_world 1)) = [dex_promise_resolve_uint 0 1]"
    and "fst (dex_channel_receive (run [Send f1, Send f2] (init_world 1))) = Promise_future 2"
    and "calls (run [Send f1, Send f2, Receive] (init_world 1))
       = [dex_promise_resolve_uint 0 1, dex_future_chain f1 2, dex_promise_resolve_uint 1 1]"
    by (simp_all add: channel_defs)
  ultimately show ?thesis by blast
qed

theorem pairing_step_advances_parked_send_witness:
  "dex_channel_one_receive_and_unlock
     \<lparr>chan = \<lparr>sendq = [\<lparr>send = 1, future = 20 :: nat\<rparr>], recvq = [2],
               queue = [\<lparr>send = 0, future = 10\<rparr>], capacity = 1, flags = 3\<rparr>,
       next_promise = 3, calls = []\<rparr>
   = \<lparr>chan = \<lparr>sendq = [], recvq = [],
               queue = [\<lparr>send = 1, future = 20\<rparr>], capacity = 1, flags = 3\<rparr>,
       next_promise = 3,
       calls = [dex_future_chain 10 2, dex_promise_resolve_uint 1 1]\<rparr>"
  using pairing_step_advances_parked_send[
      where w = "\<lparr>chan = \<lparr>sendq = [\<lparr>send = 1, future = 20 :: nat\<rparr>], recvq = [2],
               queue = [\<lparr>send = 0, future = 10\<rparr>], capacity = 1, flags = 3\<rparr>,
           next_promise = 3, calls = []\<rparr>"
        and it = "\<lparr>send = 0, future = 10\<rparr>" and q = "[]" and p = 2 and r = "[]"
        and parked = "\<lparr>send = 1, future = 20\<rparr>" and s = "[]"
        and ?f1.0 = 10 and ?f2.0 = 20]
  by simp

text \<open>
  The claim as written fails once \<open>2 ^ 32\<close> senders are parked. After \<open>2 ^ 32 + 1\<close>
  sends on a channel of capacity 1 the queue holds one item and \<open>sendq\<close> the others,
  and the length field of \<open>sendq\<close> reads 0. A receive then pops the item and pairs it,
  the queue is empty and below capacity, \<open>sendq\<close> is non-empty, and yet nothing is
  moved and no send promise is resolved.
\<close>

theorem parked_send_not_advanced:
  "queue (chan (run (replicate 4294967297 (Send (0 :: nat))) (init_world 1))) = [\<lparr>send = 0, future = 0\<rparr>]
   \<and> length (sendq (chan (run (replicate 4294967297 (Send (0 :: nat))) (init_world 1)))) = 4294967296
   \<and> capacity (chan (run (replicate 4294967297 (Send (0 :: nat))) (init_world 1))) = 1
   \<and> calls (exec Receive (run (replicate 4294967297 (Send (0 :: nat))) (init_world 1)))
       = calls (run (replicate 4294967297 (Send (0 :: nat))) (init_world 1)) @ [dex_future_chain 0 (next_promise (run (replicate 4294967297 (Send (0 :: nat))) (init_world 1)))]
   \<and> queue (chan (exec Receive (run (replicate 4294967297 (Send (0 :: nat))) (init_world 1)))) = []
   \<and> sendq (chan (exec Receive (run (replicate 4294967297 (Send (0 :: nat))) (init_world 1)))) = sendq (chan (run (replicate 4294967297 (Send (0 :: nat))) (init_world 1)))"
proof -
  let ?v = "(run (replicate 4294967297 (Send (0 :: nat))) (init_world 1))"
  have park: "queue (chan ?v) = [\<lparr>send = 0, future = 0\<rparr>]"
    "length (sendq (chan ?v)) = 4294967296" "recvq (chan ?v) = []"
    "dex_channel_can_send (chan ?v)" "dex_channel_can_receive (chan ?v)"
    "capacity (chan ?v) = 1"
    using sends_park[of 4294967296 "0 :: nat"] by simp_all
  let ?m = "?v\<lparr>next_promise := Suc (next_promise ?v),
                  chan := (chan ?v)\<lparr>recvq := recvq (chan ?v) @ [next_promise ?v]\<rparr>\<rparr>"
  have "\<not> receive_rejects (chan ?v)"
    using park(4,5) by (simp add: receive_rejects_def)
  then have e: "exec Receive ?v = dex_channel_one_receive_and_unlock ?m"
    by (simp add: receive_accepted_eq)
  have "queue_length (sendq (chan ?v)) = 0"
    using park(2) by (rule queue_length_wrapped)
  then have "queue_length (sendq (chan ?m)) = 0"
    "queue_length (queue (chan ?m)) = 1" "queue_length (recvq (chan ?m)) = 1"
    using park(1,3) by (simp_all add: queue_length_def)
  then have "dex_channel_one_receive_and_unlock ?m
      = ?m\<lparr>chan := (chan ?m)\<lparr>recvq := tl (recvq (chan ?m)), queue := tl (queue (chan ?m))\<rparr>,
            calls := calls ?m @ [dex_future_chain (future (hd (queue (chan ?m))))
                                   (hd (recvq (chan ?m)))]\<rparr>"
    by (simp add: dex_channel_one_receive_and_unlock_def Let_def)
  then show ?thesis
    unfolding e using park by simp
qed

subsection \<open>Receiving\<close>

text \<open>
  Claim C5 fails on the code. A channel is created with capacity 0 and receives
  \<open>2 ^ 32\<close> sends: \<open>2 ^ 32 - 1\<close> items are queued and one is parked. The send side is
  then closed. \<open>queue.length + sendq.length\<close> is \<open>2 ^ 32\<close>, which is not at most
  \<open>recvq.length = 0\<close>, and \<^verbatim>\<open>CAN_RECEIVE\<close> is set; but the \<^verbatim>\<open>guint\<close> sum the code
  computes wraps to 0, so \<^verbatim>\<open>dex_channel_receive\<close> rejects the promise it returns and
  leaves the channel as it was.
\<close>

theorem receive_rejected_with_items_waiting:
  "length (queue (chan (run (replicate 4294967296 (Send (0 :: nat)) @ [Close_send]) (init_world 0)))) = 4294967295
   \<and> length (sendq (chan (run (replicate 4294967296 (Send (0 :: nat)) @ [Close_send]) (init_world 0)))) = 1
   \<and> recvq (chan (run (replicate 4294967296 (Send (0 :: nat)) @ [Close_send]) (init_world 0))) = []
   \<and> dex_channel_can_receive (chan (run (replicate 4294967296 (Send (0 :: nat)) @ [Close_send]) (init_world 0)))
   \<and> \<not> dex_channel_can_send (chan (run (replicate 4294967296 (Send (0 :: nat)) @ [Close_send]) (init_world 0)))
   \<and> dex_channel_receive (run (replicate 4294967296 (Send (0 :: nat)) @ [Close_send]) (init_world 0))
       = (Promise_future (next_promise (run (replicate 4294967296 (Send (0 :: nat)) @ [Close_send]) (init_world 0))),
          (run (replicate 4294967296 (Send (0 :: nat)) @ [Close_send]) (init_world 0))\<lparr>next_promise := Suc (next_promise (run (replicate 4294967296 (Send (0 :: nat)) @ [Close_send]) (init_world 0))),
              calls := calls (run (replicate 4294967296 (Send (0 :: nat)) @ [Close_send]) (init_world 0)) @ [dex_promise_reject (next_promise (run (replicate 4294967296 (Send (0 :: nat)) @ [Close_send]) (init_world 0)))
                                     DEX_ERROR_CHANNEL_CLOSED]\<rparr>)"
proof -
  let ?v = "run (replicate 4294967296 (Send (0 :: nat))) (init_world 0)"
  have over: "length (queue (chan ?v)) = 4294967295" "length (sendq (chan ?v)) = 1"
    "recvq (chan ?v) = []" "dex_channel_can_send (chan ?v)" "dex_channel_can_receive (chan ?v)"
    using sends_overflow[of "0 :: nat"] by simp_all
  have w: "(run (replicate 4294967296 (Send (0 :: nat)) @ [Close_send]) (init_world 0)) = dex_channel_close_send ?v"
    by (simp add: run_append)
  have facts: "length (queue (chan (run (replicate 4294967296 (Send (0 :: nat)) @ [Close_send]) (init_world 0)))) = 4294967295" "length (sendq (chan (run (replicate 4294967296 (Send (0 :: nat)) @ [Close_send]) (init_world 0)))) = 1"
    "recvq (chan (run (replicate 4294967296 (Send (0 :: nat)) @ [Close_send]) (init_world 0))) = []" "dex_channel_can_receive (chan (run (replicate 4294967296 (Send (0 :: nat)) @ [Close_send]) (init_world 0)))"
    "\<not> dex_channel_can_send (chan (run (replicate 4294967296 (Send (0 :: nat)) @ [Close_send]) (init_world 0)))"
    unfolding w using over
    by (simp_all add: close_send_eq dex_channel_can_send_def dex_channel_can_receive_def
        flags_clear_send)
  have "queue_length (queue (chan (run (replicate 4294967296 (Send (0 :: nat)) @ [Close_send]) (init_world 0)))) + queue_length (sendq (chan (run (replicate 4294967296 (Send (0 :: nat)) @ [Close_send]) (init_world 0)))) = 0"
    using facts(1,2) by (simp add: queue_length_def)
  then have "receive_rejects (chan (run (replicate 4294967296 (Send (0 :: nat)) @ [Close_send]) (init_world 0)))"
    using facts(3,5) by (simp add: receive_rejects_def)
  then show ?thesis
    using facts by (simp add: receive_rejected_eq)
qed

subsection \<open>Closing the send side\<close>

text \<open>
  Claim C6, as the code has it. Provided \<open>recvq\<close> holds fewer than \<open>2 ^ 32\<close> entries
  and \<open>queue\<close> and \<open>sendq\<close> together hold fewer than \<open>2 ^ 32\<close>,
  \<^verbatim>\<open>dex_channel_close_send\<close> clears \<^verbatim>\<open>CAN_SEND\<close> (and leaves \<^verbatim>\<open>CAN_RECEIVE\<close> as
  it was), keeps \<open>queue\<close>, \<open>sendq\<close> and the capacity, keeps the first
  \<open>queue.length + sendq.length\<close> receivers of \<open>recvq\<close>, and rejects with
  \<^verbatim>\<open>DEX_ERROR_CHANNEL_CLOSED\<close> exactly the receivers behind them, in order:
  \<open>max 0 (recvq.length - (queue.length + sendq.length))\<close> promises.
\<close>

theorem close_send_rejects_excess_receivers:
  assumes "length (recvq (chan w)) < 2 ^ 32"
    and "length (sendq (chan w)) + length (queue (chan w)) < 2 ^ 32"
  shows "\<not> dex_channel_can_send (chan (dex_channel_close_send w))
   \<and> dex_channel_can_receive (chan (dex_channel_close_send w))
       = dex_channel_can_receive (chan w)
   \<and> queue (chan (dex_channel_close_send w)) = queue (chan w)
   \<and> sendq (chan (dex_channel_close_send w)) = sendq (chan w)
   \<and> capacity (chan (dex_channel_close_send w)) = capacity (chan w)
   \<and> recvq (chan (dex_channel_close_send w))
       = take (length (sendq (chan w)) + length (queue (chan w))) (recvq (chan w))
   \<and> calls (dex_channel_close_send w)
       = calls w @ map reject_promise
           (drop (length (sendq (chan w)) + length (queue (chan w))) (recvq (chan w)))
   \<and> int (length (drop (length (sendq (chan w)) + length (queue (chan w)))
                     (recvq (chan w))))
       = max 0 (int (length (recvq (chan w)))
                  - (int (length (queue (chan w))) + int (length (sendq (chan w)))))"
proof -
  have "unat (queue_length (sendq (chan w)) + queue_length (queue (chan w)))
          = length (sendq (chan w)) + length (queue (chan w))"
    using assms(2) by (rule unat_queue_length_sum)
  then show ?thesis
    using assms(1)
    by (simp add: close_send_eq flags_clear_send dex_channel_can_send_def
        dex_channel_can_receive_def)
qed

theorem close_send_rejects_excess_receivers_witness:
  "recvq (chan (dex_channel_close_send
      \<lparr>chan = \<lparr>sendq = [], recvq = [4, 5, 6], queue = [\<lparr>send = 0, future = 7 :: nat\<rparr>],
               capacity = 1, flags = 3\<rparr>, next_promise = 7, calls = []\<rparr>)) = [4]
   \<and> calls (dex_channel_close_send
      \<lparr>chan = \<lparr>sendq = [], recvq = [4, 5, 6], queue = [\<lparr>send = 0, future = 7 :: nat\<rparr>],
               capacity = 1, flags = 3\<rparr>, next_promise = 7, calls = []\<rparr>)
       = [dex_promise_reject 5 DEX_ERROR_CHANNEL_CLOSED,
          dex_promise_reject 6 DEX_ERROR_CHANNEL_CLOSED]"
proof -
  have "length (recvq (chan
      \<lparr>chan = \<lparr>sendq = [], recvq = [4, 5, 6], queue = [\<lparr>send = 0, future = 7 :: nat\<rparr>],
               capacity = 1, flags = 3\<rparr>, next_promise = 7, calls = []\<rparr>)) < 2 ^ 32"
    and "length (sendq (chan
      \<lparr>chan = \<lparr>sendq = [], recvq = [4, 5, 6], queue = [\<lparr>send = 0, future = 7 :: nat\<rparr>],
               capacity = 1, flags = 3\<rparr>, next_promise = 7, calls = []\<rparr>))
       + length (queue (chan
      \<lparr>chan = \<lparr>sendq = [], recvq = [4, 5, 6], queue = [\<lparr>send = 0, future = 7 :: nat\<rparr>],
               capacity = 1, flags = 3\<rparr>, next_promise = 7, calls = []\<rparr>)) < 2 ^ 32"
    by simp_all
  from close_send_rejects_excess_receivers[OF this] show ?thesis
    by (simp add: reject_promise_def)
qed

text \<open>
  The claim as written fails once \<open>2 ^ 32\<close> receivers wait. After \<open>2 ^ 32\<close> receives
  on a fresh channel nothing is queued or parked, so every receiver is in excess; the
  length field of \<open>recvq\<close> reads 0, the truncation loop does not run, and
  \<^verbatim>\<open>dex_channel_close_send\<close> rejects nobody.
\<close>

theorem close_send_rejects_nobody:
  "length (recvq (chan (run (replicate 4294967296 Receive) (init_world 1 :: nat world)))) = 4294967296
   \<and> queue (chan (run (replicate 4294967296 Receive) (init_world 1 :: nat world))) = []
   \<and> sendq (chan (run (replicate 4294967296 Receive) (init_world 1 :: nat world))) = []
   \<and> recvq (chan (dex_channel_close_send (run (replicate 4294967296 Receive) (init_world 1 :: nat world)))) = recvq (chan (run (replicate 4294967296 Receive) (init_world 1 :: nat world)))
   \<and> calls (dex_channel_close_send (run (replicate 4294967296 Receive) (init_world 1 :: nat world))) = calls (run (replicate 4294967296 Receive) (init_world 1 :: nat world))"
proof -
  have fill: "length (recvq (chan (run (replicate 4294967296 Receive) (init_world 1 :: nat world)))) = 4294967296" "queue (chan (run (replicate 4294967296 Receive) (init_world 1 :: nat world))) = []"
    "sendq (chan (run (replicate 4294967296 Receive) (init_world 1 :: nat world))) = []"
    using receives_fill[of 4294967296 1, where ?'f = nat] by simp_all
  have "queue_length (recvq (chan (run (replicate 4294967296 Receive) (init_world 1 :: nat world)))) = 0"
    using fill(1) by (rule queue_length_wrapped)
  then have "truncate_recvq 0 (recvq (chan (run (replicate 4294967296 Receive) (init_world 1 :: nat world)))) [] = (recvq (chan (run (replicate 4294967296 Receive) (init_world 1 :: nat world))), [])"
    by (simp add: truncate_recvq_stops)
  then show ?thesis
    using fill
    by (simp add: dex_channel_close_send_def dex_channel_unset_state_flags_def
        flags_self drain_queue_eq Let_def)
qed


subsection \<open>The invariants hold while no length field wraps\<close>
















subsection \<open>One pairing step is the whole loop\<close>









subsection \<open>A channel created with capacity 0\<close>

text \<open>
  Claim C10, as the code has it. A channel created with capacity 0 has capacity
  \<^verbatim>\<open>G_MAXUINT\<close>, that is \<open>2 ^ 32 - 1\<close>. In every execution from such a channel, a send
  on the open channel with \<open>sendq\<close> empty and fewer than \<open>2 ^ 32 - 1\<close> queued items
  pushes its item directly onto \<open>queue\<close>, and \<open>sendq\<close> is still empty afterwards.
\<close>

theorem unbounded_channel_send_queues:
  assumes "w = run ops (init_world 0)"
    and "dex_channel_can_send (chan w)" and "dex_channel_can_receive (chan w)"
    and "sendq (chan w) = []"
    and "length (queue (chan w)) < 4294967295"
  shows "capacity (chan w) = G_MAXUINT \<and> unat G_MAXUINT = 4294967295
    \<and> dex_channel_send fut w =
        (Promise_future (next_promise w),
         dex_channel_one_receive_and_unlock
           (w\<lparr>next_promise := Suc (next_promise w),
              chan := (chan w)\<lparr>queue := queue (chan w)
                                    @ [\<lparr>send = next_promise w, future = fut\<rparr>]\<rparr>,
              calls := calls w @ [dex_promise_resolve_uint (next_promise w)
                                    (of_nat (length (queue (chan w)) + 1))]\<rparr>))
    \<and> sendq (chan (snd (dex_channel_send fut w))) = []"
proof -
  have c: "capacity (chan w) = G_MAXUINT"
    unfolding assms(1) by (simp add: run_capacity init_world_def dex_channel_new_def)
  then have "has_capacity_locked (chan w)"
    using assms(4,5)
    by (simp add: has_capacity_locked_def queue_length_less_iff unat_G_MAXUINT)
  then show ?thesis
    using c assms(2,3,4) by (simp add: send_queued_eq step_sendq_Nil unat_G_MAXUINT)
qed

theorem unbounded_channel_send_queues_witness:
  "capacity (chan (run [Send (1 :: nat), Send 2] (init_world 0))) = 4294967295
   \<and> dex_channel_send (3 :: nat) (run [Send 1, Send 2] (init_world 0))
     = (Promise_future 2,
        \<lparr>chan = \<lparr>sendq = [], recvq = [],
                 queue = [\<lparr>send = 0, future = 1\<rparr>, \<lparr>send = 1, future = 2\<rparr>,
                          \<lparr>send = 2, future = 3\<rparr>],
                 capacity = 4294967295, flags = 3\<rparr>,
         next_promise = 3,
         calls = [dex_promise_resolve_uint 0 1, dex_promise_resolve_uint 1 2,
                  dex_promise_resolve_uint 2 3]\<rparr>)"
proof -
  have "dex_channel_can_send (chan (run [Send (1 :: nat), Send 2] (init_world 0)))"
    and "dex_channel_can_receive (chan (run [Send (1 :: nat), Send 2] (init_world 0)))"
    and "sendq (chan (run [Send (1 :: nat), Send 2] (init_world 0))) = []"
    and "length (queue (chan (run [Send (1 :: nat), Send 2] (init_world 0)))) < 4294967295"
    by (simp_all add: channel_defs)
  from unbounded_channel_send_queues[OF refl this, of 3] show ?thesis
    by (simp add: channel_defs)
qed

text \<open>
  The claim as written (no backpressure ever) fails once \<open>2 ^ 32 - 1\<close> items are
  queued: \<open>sendq\<close> is empty, yet the next send is parked in \<open>sendq\<close> and \<open>queue\<close>
  stays as it was.
\<close>

theorem unbounded_channel_backpressure:
  "sendq (chan (run (replicate 4294967295 (Send (0 :: nat))) (init_world 0))) = []
   \<and> dex_channel_can_send (chan (run (replicate 4294967295 (Send (0 :: nat))) (init_world 0)))
   \<and> dex_channel_can_receive
       (chan (run (replicate 4294967295 (Send (0 :: nat))) (init_world 0)))
   \<and> queue (chan (snd (dex_channel_send (0 :: nat)
                (run (replicate 4294967295 (Send 0)) (init_world 0)))))
       = queue (chan (run (replicate 4294967295 (Send (0 :: nat))) (init_world 0)))
   \<and> sendq (chan (snd (dex_channel_send (0 :: nat)
                (run (replicate 4294967295 (Send 0)) (init_world 0))))) \<noteq> []"
proof -
  let ?w = "run (replicate 4294967295 (Send (0 :: nat))) (init_world 0)"
  have fill: "length (queue (chan ?w)) = 4294967295" "sendq (chan ?w) = []"
    "dex_channel_can_send (chan ?w)" "dex_channel_can_receive (chan ?w)"
    using sends_fill[of 4294967295 "0 :: nat"] by simp_all
  have "capacity (chan ?w) = G_MAXUINT"
    by (simp add: run_capacity init_world_def dex_channel_new_def)
  then have "\<not> has_capacity_locked (chan ?w)"
    using fill(1)
    by (simp add: has_capacity_locked_def queue_length_less_iff unat_G_MAXUINT)
  then show ?thesis
    using fill by (simp add: send_parked_eq)
qed

section \<open>Properties of the fiber start function\<close>

lemma mask36: "(0xFFFFFFFFF :: 64 word) = mask 36"
  by (simp add: mask_eq_exp_minus_1)

lemma start_pointer_bit:
  "bit (dex_fiber_start_pointer (dex_fiber_new_hi p) (dex_fiber_new_lo p)) n
     \<longleftrightarrow> (if n < 32 then bit p n else n < 64 \<and> (bit p n \<or> bit p 31))"
proof -
  have a: "31 \<le> n - 32 \<Longrightarrow> n < 64 \<Longrightarrow> n = 63" by arith
  have b: "31 \<le> n \<Longrightarrow> n < 32 \<Longrightarrow> n = 31" by arith
  show ?thesis
    by (auto simp: dex_fiber_start_pointer_def dex_fiber_new_hi_def dex_fiber_new_lo_def
        Let_def mask36 bit_simps min_def dest: a b)
qed

text \<open>
  The pointer survives the split and the reassembly exactly when bit 31 is clear, or
  bits 32 to 63 are all set.
\<close>

lemma start_pointer_round_trip_iff:
  "dex_fiber_start_pointer (dex_fiber_new_hi p) (dex_fiber_new_lo p) = p
     \<longleftrightarrow> (bit p 31 \<longrightarrow> (\<forall>n. 32 \<le> n \<and> n < 64 \<longrightarrow> bit p n))"
  using start_pointer_bit[of p]
  by (auto simp: bit_eq_iff dest: bit_imp_le_length)

text \<open>
  Claim C8 fails on the code. For the user-space address \<open>0x7F0080001000\<close>, whose bit 31
  is set, \<^verbatim>\<open>dex_fiber_new\<close> passes \<open>hi = 0x7F00\<close> and \<open>lo = 0x80001000\<close>; in
  \<^verbatim>\<open>dex_fiber_start_\<close> the negative \<^verbatim>\<open>int\<close> \<open>lo\<close> is sign-extended to
  \<open>0xFFFFFFFF80001000\<close>, and the reassembled pointer is that value, not the fiber.
\<close>

theorem fiber_pointer_round_trip_fails:
  "dex_fiber_new_hi 0x7F0080001000 = 0x7F00
   \<and> dex_fiber_new_lo 0x7F0080001000 = 0x80001000
   \<and> dex_fiber_start_pointer (dex_fiber_new_hi 0x7F0080001000) (dex_fiber_new_lo 0x7F0080001000)
       = 0xFFFFFFFF80001000"
  by (simp add: dex_fiber_start_pointer_def dex_fiber_new_hi_def dex_fiber_new_lo_def Let_def)




section \<open>Properties of timeouts\<close>

lemma postpone_status [simp]:
  "status (dex_timeout_postpone_until t d) = status t"
  by (simp add: dex_timeout_postpone_until_def)

lemma postpone_source_None [simp]:
  "source (dex_timeout_postpone_until t d) = None \<longleftrightarrow> source t = None"
  by (simp add: dex_timeout_postpone_until_def)

lemma invoke_listener_keeps:
  "status (invoke_listener cb t) = status t
   \<and> (source (invoke_listener cb t) = None \<longleftrightarrow> source t = None)"
  unfolding invoke_listener_def
  by (induction cb arbitrary: t) simp_all

lemma listeners_keep:
  "status (fold invoke_listener ls t) = status t
   \<and> (source (fold invoke_listener ls t) = None \<longleftrightarrow> source t = None)"
  by (induction ls arbitrary: t) (simp_all add: invoke_listener_keeps)

lemma timeout_exec_inv:
  assumes "status t = DEX_FUTURE_STATUS_PENDING \<longleftrightarrow> source t \<noteq> None"
  shows "status (timeout_exec ev t) = DEX_FUTURE_STATUS_PENDING
           \<longleftrightarrow> source (timeout_exec ev t) \<noteq> None"
  using assms
  by (cases ev)
     (auto simp: dex_timeout_source_func_def dex_future_complete_def listeners_keep
        split: option.splits)

lemma timeout_run_inv:
  assumes "status t = DEX_FUTURE_STATUS_PENDING \<longleftrightarrow> source t \<noteq> None"
  shows "status (timeout_run evs t) = DEX_FUTURE_STATUS_PENDING
           \<longleftrightarrow> source (timeout_run evs t) \<noteq> None"
  using assms
proof (induction evs arbitrary: t)
  case Nil
  then show ?case by simp
next
  case (Cons ev evs)
  from Cons.IH[OF timeout_exec_inv[OF Cons.prems, of ev]] show ?case by simp
qed

text \<open>
  Claim C9, as the code has it. \<^verbatim>\<open>dex_timeout_postpone_until\<close> tests the source
  pointer, not the status of the future: it sets the ready time of the source when the
  source is still set and does nothing when it has been cleared. Let a timeout be
  created by \<^verbatim>\<open>dex_timeout_new_deadline\<close> and then be postponed and dispatched in any
  order, the listeners of a dispatch being free to postpone it too. Between these
  events a pending timeout has its source, so postponing re-arms it and changes nothing
  else; a terminal one has had its source cleared by the source callback, so
  postponing leaves it unchanged.
\<close>

theorem postpone_until_tests_source:
  assumes "timeout = timeout_run evs (dex_timeout_new_deadline d0)"
  shows "(status timeout = DEX_FUTURE_STATUS_PENDING
            \<longrightarrow> dex_timeout_postpone_until timeout deadline
                  = timeout\<lparr>source := Some deadline\<rparr>)
       \<and> (status timeout \<noteq> DEX_FUTURE_STATUS_PENDING
            \<longrightarrow> source timeout = None
                \<and> dex_timeout_postpone_until timeout deadline = timeout)
       \<and> (source t \<noteq> None
            \<longrightarrow> dex_timeout_postpone_until t deadline = t\<lparr>source := Some deadline\<rparr>)
       \<and> (source t = None \<longrightarrow> dex_timeout_postpone_until t deadline = t)"
proof -
  have "status (dex_timeout_new_deadline d0) = DEX_FUTURE_STATUS_PENDING
          \<longleftrightarrow> source (dex_timeout_new_deadline d0) \<noteq> None"
    by (simp add: dex_timeout_new_deadline_def)
  then have "status timeout = DEX_FUTURE_STATUS_PENDING \<longleftrightarrow> source timeout \<noteq> None"
    unfolding assms by (rule timeout_run_inv)
  then show ?thesis
    by (auto simp: dex_timeout_postpone_until_def)
qed

theorem postpone_until_tests_source_witness:
  "status (timeout_run [Postpone_until 7] (dex_timeout_new_deadline 5))
     = DEX_FUTURE_STATUS_PENDING
   \<and> dex_timeout_postpone_until
       (timeout_run [Postpone_until 7] (dex_timeout_new_deadline 5)) 9
     = \<lparr>status = DEX_FUTURE_STATUS_PENDING, rejection = None, source = Some 9\<rparr>
   \<and> status (timeout_run [Source_dispatch [[8]]] (dex_timeout_new_deadline 5))
     = DEX_FUTURE_STATUS_REJECTED
   \<and> dex_timeout_postpone_until
       (timeout_run [Source_dispatch [[8]]] (dex_timeout_new_deadline 5)) 9
     = \<lparr>status = DEX_FUTURE_STATUS_REJECTED, rejection = Some G_IO_ERROR_TIMED_OUT,
        source = None\<rparr>"
  using postpone_until_tests_source[OF refl, of "[Postpone_until 7]" 5 9
      "dex_timeout_new_deadline 5"]
    postpone_until_tests_source[OF refl, of "[Source_dispatch [[8]]]" 5 9
      "timeout_run [Source_dispatch [[8]]] (dex_timeout_new_deadline 5)"]
  by (simp add: dex_timeout_postpone_until_def dex_timeout_source_func_def
      dex_future_complete_def dex_timeout_new_deadline_def invoke_listener_def)

text \<open>
  The claim as written fails inside the source callback. The timeout with deadline 5
  fires; its future is completed and is terminal when the listeners run, and the
  source is not yet cleared. A listener that postpones the timeout to 9 changes it:
  the ready time of the source goes from 5 to 9.
\<close>

theorem postpone_changes_completed_timeout:
  "status (dex_future_complete [] (dex_timeout_new_deadline 5) G_IO_ERROR_TIMED_OUT)
     = DEX_FUTURE_STATUS_REJECTED
   \<and> source (dex_future_complete [] (dex_timeout_new_deadline 5) G_IO_ERROR_TIMED_OUT)
     = Some 5
   \<and> dex_timeout_postpone_until
       (dex_future_complete [] (dex_timeout_new_deadline 5) G_IO_ERROR_TIMED_OUT) 9
     = \<lparr>status = DEX_FUTURE_STATUS_REJECTED, rejection = Some G_IO_ERROR_TIMED_OUT,
        source = Some 9\<rparr>
   \<and> dex_future_complete [[9]] (dex_timeout_new_deadline 5) G_IO_ERROR_TIMED_OUT
     = \<lparr>status = DEX_FUTURE_STATUS_REJECTED, rejection = Some G_IO_ERROR_TIMED_OUT,
        source = Some 9\<rparr>"
  by (simp add: dex_timeout_postpone_until_def dex_future_complete_def
      dex_timeout_new_deadline_def invoke_listener_def)

end
